theory Spec2Isabelle
  imports Complex_Main "HOL-Library.AList" "HOL-Library.List_Lexorder"
begin

section \<open>Python values\<close>

text \<open>
  A Python \<open>str\<close> is a sequence of Unicode code points, so it is modelled as a list of
  naturals: \<open>len\<close>, \<open>in\<close>, \<open>strip\<close> and the comparison of two strings all work on code
  points. \<open>ascii\<close> writes a literal of the source whose characters are all ASCII.
\<close>

type_synonym pystr = "nat list"

definition ascii :: "string \<Rightarrow> pystr" where
  "ascii s = map of_char s"

text \<open>
  \<open>str.isspace\<close> for one code point: the code points Python 3 treats as whitespace,
  which are the ones \<open>str.strip()\<close> removes from both ends.
\<close>

definition py_isspace :: "nat \<Rightarrow> bool" where
  "py_isspace c \<longleftrightarrow>
     (9 \<le> c \<and> c \<le> 13) \<or> (28 \<le> c \<and> c \<le> 32) \<or> c = 133 \<or> c = 160 \<or> c = 5760
     \<or> (8192 \<le> c \<and> c \<le> 8202) \<or> c = 8232 \<or> c = 8233 \<or> c = 8239 \<or> c = 8287
     \<or> c = 12288"

definition py_strip :: "pystr \<Rightarrow> pystr" where
  "py_strip s = rev (dropWhile py_isspace (rev (dropWhile py_isspace s)))"

text \<open>\<open>kw in s\<close> for two strings: \<open>kw\<close> occurs in \<open>s\<close> as a contiguous run.\<close>

fun starts_with :: "pystr \<Rightarrow> pystr \<Rightarrow> bool" where
  "starts_with [] s = True"
| "starts_with (k # ks) [] = False"
| "starts_with (k # ks) (c # cs) = (k = c \<and> starts_with ks cs)"

fun str_contains :: "pystr \<Rightarrow> pystr \<Rightarrow> bool" where
  "str_contains kw [] = (kw = [])"
| "str_contains kw (c # cs) = (starts_with kw (c # cs) \<or> str_contains kw cs)"

text \<open>
  A Python \<open>float\<close> as far as truth value and \<open>int()\<close> need it: a finite double is a
  rational number, and the two infinities and NaN are values of their own.
\<close>

datatype pyfloat = Finite rat | PosInf | NegInf | NaN

text \<open>What \<open>json.loads\<close> returns.\<close>

datatype json =
    JNull
  | JBool bool
  | JInt int
  | JFloat pyfloat
  | JStr pystr
  | JArr "json list"
  | JObj "(pystr \<times> json) list"

text \<open>
  A \<open>dict\<close> keeps its keys in insertion order, so it is an association list (with
  distinct keys); \<open>Dict[str, str]\<close> is the same with string values.
\<close>

type_synonym dict = "(pystr \<times> json) list"

type_synonym strdict = "(pystr \<times> pystr) list"

text \<open>
  The exceptions that reach the callers. \<open>DartError\<close> keeps the two values the source
  interpolates into its message (status and message); \<open>KrxError\<close> keeps the sorted keys.
\<close>

datatype error =
    ValueError string
  | TypeError
  | AttributeError
  | OverflowError
  | URLError string
  | DartError json json
  | KrxError "pystr list"

text \<open>The truth value of a JSON value (\<open>bool(x)\<close>), and \<open>x or d\<close>.\<close>

fun truthy :: "json \<Rightarrow> bool" where
  "truthy JNull = False"
| "truthy (JBool b) = b"
| "truthy (JInt i) = (i \<noteq> 0)"
| "truthy (JFloat f) = (f \<noteq> Finite 0)"
| "truthy (JStr s) = (s \<noteq> [])"
| "truthy (JArr xs) = (xs \<noteq> [])"
| "truthy (JObj kvs) = (kvs \<noteq> [])"

definition py_or :: "json \<Rightarrow> json \<Rightarrow> json" where
  "py_or x d = (if truthy x then x else d)"

text \<open>\<open>data.get(key)\<close>: the value, or \<open>None\<close> when the key is absent.\<close>

definition dict_get :: "dict \<Rightarrow> pystr \<Rightarrow> json" where
  "dict_get data key = (case map_of data key of None \<Rightarrow> JNull | Some v \<Rightarrow> v)"

text \<open>
  Iterating a value, as \<open>list.extend\<close> and \<open>list()\<close> do: a list gives its elements, a
  string its characters, a dict its keys; anything else raises \<open>TypeError\<close>.
\<close>

fun py_iter :: "json \<Rightarrow> error + json list" where
  "py_iter (JArr xs) = Inr xs"
| "py_iter (JStr s) = Inr (map (\<lambda>c. JStr [c]) s)"
| "py_iter (JObj kvs) = Inr (map (\<lambda>kv. JStr (fst kv)) kvs)"
| "py_iter v = Inl TypeError"

text \<open>
  \<open>int(x)\<close>. A float is truncated towards zero. The parser of \<open>int()\<close> for strings is
  a parameter, \<open>int_of_str\<close>, with \<open>None\<close> for the strings it rejects.
\<close>

definition trunc_rat :: "rat \<Rightarrow> int" where
  "trunc_rat q = (if 0 \<le> q then \<lfloor>q\<rfloor> else \<lceil>q\<rceil>)"

fun py_int :: "(pystr \<Rightarrow> int option) \<Rightarrow> json \<Rightarrow> error + int" where
  "py_int int_of_str (JInt i) = Inr i"
| "py_int int_of_str (JBool b) = Inr (if b then 1 else 0)"
| "py_int int_of_str (JFloat (Finite q)) = Inr (trunc_rat q)"
| "py_int int_of_str (JFloat NaN) = Inl (ValueError ''cannot convert float NaN to integer'')"
| "py_int int_of_str (JFloat f) = Inl OverflowError"
| "py_int int_of_str (JStr s) =
     (case int_of_str s of
        None \<Rightarrow> Inl (ValueError ''invalid literal for int() with base 10'')
      | Some i \<Rightarrow> Inr i)"
| "py_int int_of_str v = Inl TypeError"

section \<open>dart.py: the DART client\<close>

record dart_client =
  api_key :: pystr

definition DartClient_init :: "pystr \<Rightarrow> error + dart_client" where
  "DartClient_init key =
     (if key = [] then Inl (ValueError ''DART API key is required'')
      else Inr \<lparr>api_key = key\<rparr>)"

text \<open>
  \<open>_get_json\<close>. The network is the function \<open>http\<close> from the query parameters sent to
  the parsed body, or to the exception of \<open>urlopen\<close>, \<open>decode\<close> or \<open>json.loads\<close>; the
  body is a dict, as the return annotation says. \<open>sent_params\<close> is
  \<open>{**params, "crtfc_key": self.api_key}\<close>.
\<close>

definition sent_params :: "dart_client \<Rightarrow> dict \<Rightarrow> dict" where
  "sent_params self params = AList.update (ascii ''crtfc_key'') (JStr (api_key self)) params"

definition status_ok :: "json \<Rightarrow> bool" where
  "status_ok status \<longleftrightarrow> status = JStr (ascii ''000'') \<or> status = JNull"

definition get_json :: "(dict \<Rightarrow> error + dict) \<Rightarrow> dart_client \<Rightarrow> dict \<Rightarrow> error + dict" where
  "get_json http self params =
     (case http (sent_params self params) of
        Inl e \<Rightarrow> Inl e
      | Inr data \<Rightarrow>
          (let status = dict_get data (ascii ''status'') in
           if \<not> status_ok status then
             (let message = py_or (dict_get data (ascii ''message''))
                                  (JStr (ascii ''Unexpected response''))
              in Inl (DartError status message))
           else Inr data))"

text \<open>
  \<open>build_corp_index\<close>: the loop over \<open>codes\<close> is a left fold of \<open>index_entry\<close>, the
  body of the loop. \<open>entry.get(key) or ""\<close> on a \<open>Dict[str, str]\<close> is \<open>str_or_empty\<close>.
\<close>

definition str_or_empty :: "pystr option \<Rightarrow> pystr" where
  "str_or_empty v = (case v of None \<Rightarrow> [] | Some s \<Rightarrow> s)"

definition entry_stock_code :: "strdict \<Rightarrow> pystr" where
  "entry_stock_code entry = py_strip (str_or_empty (map_of entry (ascii ''stock_code'')))"

definition entry_corp_code :: "strdict \<Rightarrow> pystr" where
  "entry_corp_code entry = py_strip (str_or_empty (map_of entry (ascii ''corp_code'')))"

definition index_entry ::
  "(pystr \<rightharpoonup> strdict) \<Rightarrow> strdict \<Rightarrow> (pystr \<rightharpoonup> strdict)" where
  "index_entry index entry =
     (let stock_code = entry_stock_code entry;
          corp_code = entry_corp_code entry
      in if stock_code = [] \<or> corp_code = [] then index
         else index(stock_code \<mapsto> entry))"

definition build_corp_index :: "strdict list \<Rightarrow> (pystr \<rightharpoonup> strdict)" where
  "build_corp_index codes = foldl index_entry Map.empty codes"

text \<open>
  \<open>search_filings\<close>. \<open>search_params\<close> is the dict of one iteration, \<open>page_items\<close> is
  what \<open>filings.extend\<close> appends and \<open>total_pages\<close> the value compared with \<open>page\<close>.
  The loop has no bound of its own (the service can declare ever more pages), so it is
  a partial function: \<open>None\<close> is a search that never returns. The arguments that stay
  the same over the loop come in as \<open>params\<close>, the dict of an iteration as a function of
  the page. Besides the result, the model returns the parameters of every request
  issued, in order.
\<close>

definition search_params ::
  "pystr \<Rightarrow> pystr \<Rightarrow> pystr \<Rightarrow> pystr option \<Rightarrow> int \<Rightarrow> int \<Rightarrow> dict" where
  "search_params corp_code start_date end_date detail_types page_count page =
     [(ascii ''corp_code'', JStr corp_code),
      (ascii ''bgn_de'', JStr start_date),
      (ascii ''end_de'', JStr end_date),
      (ascii ''page_no'', JInt page),
      (ascii ''page_count'', JInt page_count)]
     @ (case detail_types of
          None \<Rightarrow> []
        | Some d \<Rightarrow> if d = [] then [] else [(ascii ''pblntf_detail_ty'', JStr d)])"

definition page_items :: "dict \<Rightarrow> error + json list" where
  "page_items data = py_iter (py_or (dict_get data (ascii ''list'')) (JArr []))"

definition total_pages :: "(pystr \<Rightarrow> int option) \<Rightarrow> dict \<Rightarrow> error + int" where
  "total_pages int_of_str data =
     py_int int_of_str (py_or (dict_get data (ascii ''total_page'')) (JInt 1))"

partial_function (option) search_pages ::
  "(dict \<Rightarrow> error + dict) \<Rightarrow> (pystr \<Rightarrow> int option) \<Rightarrow> dart_client \<Rightarrow> (int \<Rightarrow> dict)
     \<Rightarrow> int \<Rightarrow> json list \<Rightarrow> dict list \<Rightarrow> (dict list \<times> (error + json list)) option"
where
  "search_pages http int_of_str self params page filings sent =
     (let sent' = sent @ [sent_params self (params page)] in
      case get_json http self (params page) of
        Inl e \<Rightarrow> Some (sent', Inl e)
      | Inr data \<Rightarrow>
          (case page_items data of
             Inl e \<Rightarrow> Some (sent', Inl e)
           | Inr items \<Rightarrow>
               (case total_pages int_of_str data of
                  Inl e \<Rightarrow> Some (sent', Inl e)
                | Inr n \<Rightarrow>
                    if page \<ge> n then Some (sent', Inr (filings @ items))
                    else search_pages http int_of_str self params (page + 1)
                           (filings @ items) sent')))"

definition search_filings ::
  "(dict \<Rightarrow> error + dict) \<Rightarrow> (pystr \<Rightarrow> int option) \<Rightarrow> dart_client
     \<Rightarrow> pystr \<Rightarrow> pystr \<Rightarrow> pystr \<Rightarrow> pystr option \<Rightarrow> int
     \<Rightarrow> (dict list \<times> (error + json list)) option" where
  "search_filings http int_of_str self corp_code start_date end_date detail_types page_count =
     (if corp_code = [] then Some ([], Inl (ValueError ''corp_code is required''))
      else search_pages http int_of_str self
             (search_params corp_code start_date end_date detail_types page_count) 1 [] [])"

text \<open>The request of page \<open>k\<close> of a search, as it goes out.\<close>

definition page_request ::
  "dart_client \<Rightarrow> pystr \<Rightarrow> pystr \<Rightarrow> pystr \<Rightarrow> pystr option \<Rightarrow> int \<Rightarrow> int \<Rightarrow> dict" where
  "page_request self corp_code start_date end_date detail_types page_count k =
     sent_params self (search_params corp_code start_date end_date detail_types page_count k)"

section \<open>krx.py: the KOSPI 200 constituents\<close>

definition KRX_BLD :: pystr where
  "KRX_BLD = ascii ''dbms/MDC/STAT/standard/MDCSTAT00601''"

text \<open>
  \<open>fetch_kospi200\<close>. \<open>post_json\<close> is \<open>_post_json\<close>: the network, from the form payload to
  the parsed body (a dict, by its annotation) or an exception. \<open>today\<close> is the value of
  \<open>date.today().strftime("%Y%m%d")\<close> at the call. \<open>sorted(data)\<close> is the sorted list of
  the keys; strings compare by code points, lexicographically.
\<close>

definition krx_payload :: "pystr \<Rightarrow> pystr option \<Rightarrow> dict" where
  "krx_payload today trade_date =
     [(ascii ''bld'', JStr KRX_BLD),
      (ascii ''trdDd'', JStr (case trade_date of None \<Rightarrow> today | Some d \<Rightarrow> d)),
      (ascii ''idxIndCd'', JStr (ascii ''1''))]"

definition fetch_kospi200 ::
  "(dict \<Rightarrow> error + dict) \<Rightarrow> pystr \<Rightarrow> pystr option \<Rightarrow> error + json list" where
  "fetch_kospi200 post_json today trade_date =
     (case post_json (krx_payload today trade_date) of
        Inl e \<Rightarrow> Inl e
      | Inr data \<Rightarrow>
          if map_of data (ascii ''OutBlock_1'') = None
          then Inl (KrxError (sort (map fst data)))
          else py_iter (py_or (dict_get data (ascii ''OutBlock_1'')) (JArr [])))"

text \<open>
  \<open>normalize_constituents\<close>. On the values of \<open>entry.get\<close> (a string or \<open>None\<close>),
  \<open>x or y\<close> is \<open>str_or\<close>, and \<open>not x\<close> holds when \<open>str_or_empty x\<close> is empty.
\<close>

definition str_or :: "pystr option \<Rightarrow> pystr option \<Rightarrow> pystr option" where
  "str_or x y = (if str_or_empty x \<noteq> [] then x else y)"

definition normalize_entry :: "strdict \<Rightarrow> strdict option" where
  "normalize_entry entry =
     (let stock_code = str_or (str_or (map_of entry (ascii ''ISU_SRT_CD''))
                                      (map_of entry (ascii ''TDD_CLSPRC'')))
                              (map_of entry (ascii ''CMP_CD''));
          name = str_or (str_or (map_of entry (ascii ''ISU_ABBRV''))
                                (map_of entry (ascii ''CMP_KOR'')))
                        (map_of entry (ascii ''KOR_SHRT_NM''))
      in if str_or_empty stock_code = [] \<or> str_or_empty name = [] then None
         else Some
           [(ascii ''stock_code'', py_strip (str_or_empty stock_code)),
            (ascii ''name'', py_strip (str_or_empty name)),
            (ascii ''market'',
               str_or_empty (str_or (str_or (map_of entry (ascii ''MKT_ID''))
                                            (map_of entry (ascii ''MKT_NM'')))
                                    (Some (ascii ''KOSPI''))))])"

fun normalize_constituents :: "strdict list \<Rightarrow> strdict list" where
  "normalize_constituents [] = []"
| "normalize_constituents (entry # entries) =
     (case normalize_entry entry of
        None \<Rightarrow> normalize_constituents entries
      | Some row \<Rightarrow> row # normalize_constituents entries)"

section \<open>checker.py: the evaluation of one company\<close>

definition DEFAULT_KEYWORDS :: "pystr list" where
  "DEFAULT_KEYWORDS =
     [[48176, 45817, 44592, 51456, 51068],
      [48176, 45817, 32, 44592, 51456, 51068],
      [48176, 45817, 50529, 32, 44277, 49884],
      [51221, 44288, 48320, 44221],
      [51221, 44288, 32, 48320, 44221],
      [48176, 45817, 32, 44288, 47144, 32, 51221, 44288]]"

record company_result =
  corp_code :: pystr
  corp_name :: pystr
  stock_code :: pystr
  has_post_dividend_provision :: bool
  matching_reports :: "json list"

record checker =
  dart :: dart_client
  start_date :: pystr
  end_date :: pystr
  policy_keywords :: "pystr list"

definition DividendPolicyChecker_init ::
  "dart_client \<Rightarrow> pystr \<Rightarrow> pystr \<Rightarrow> pystr list option \<Rightarrow> checker" where
  "DividendPolicyChecker_init dart_client bgn fin kws =
     \<lparr>dart = dart_client, start_date = bgn, end_date = fin,
      policy_keywords = (case kws of None \<Rightarrow> DEFAULT_KEYWORDS | Some ks \<Rightarrow> ks)\<rparr>"

text \<open>
  \<open>keyword in report_name\<close>: a substring test on a string, membership in a list, a key
  test on a dict, \<open>TypeError\<close> on anything else. \<open>any_keyword_in\<close> is \<open>any\<close> over the
  generator: it stops at the first keyword found, and at the first exception.
\<close>

fun py_in :: "pystr \<Rightarrow> json \<Rightarrow> error + bool" where
  "py_in kw (JStr s) = Inr (str_contains kw s)"
| "py_in kw (JArr xs) = Inr (JStr kw \<in> set xs)"
| "py_in kw (JObj kvs) = Inr (kw \<in> set (map fst kvs))"
| "py_in kw v = Inl TypeError"

fun any_keyword_in :: "pystr list \<Rightarrow> json \<Rightarrow> error + bool" where
  "any_keyword_in [] report_name = Inr False"
| "any_keyword_in (kw # kws) report_name =
     (case py_in kw report_name of
        Inl e \<Rightarrow> Inl e
      | Inr found \<Rightarrow> if found then Inr True else any_keyword_in kws report_name)"

definition matches_policy :: "checker \<Rightarrow> json \<Rightarrow> error + bool" where
  "matches_policy self report_name = any_keyword_in (policy_keywords self) report_name"

text \<open>
  The list comprehension of \<open>evaluate_company\<close>: \<open>item.get("report_nm", "")\<close> needs a
  dict (\<open>AttributeError\<close> otherwise) and gives \<open>""\<close> only when the key is absent.
\<close>

fun matching_items :: "checker \<Rightarrow> json list \<Rightarrow> error + json list" where
  "matching_items self [] = Inr []"
| "matching_items self (item # filings) =
     (case item of
        JObj d \<Rightarrow>
          (case matches_policy self
                  (case map_of d (ascii ''report_nm'') of None \<Rightarrow> JStr [] | Some v \<Rightarrow> v) of
             Inl e \<Rightarrow> Inl e
           | Inr found \<Rightarrow>
               (case matching_items self filings of
                  Inl e \<Rightarrow> Inl e
                | Inr matches \<Rightarrow> Inr (if found then item # matches else matches)))
      | _ \<Rightarrow> Inl AttributeError)"

definition evaluate_company ::
  "(dict \<Rightarrow> error + dict) \<Rightarrow> (pystr \<Rightarrow> int option) \<Rightarrow> checker \<Rightarrow> strdict
     \<Rightarrow> (dict list \<times> (error + company_result)) option" where
  "evaluate_company http int_of_str self corp =
     (let code = str_or_empty (map_of corp (ascii ''corp_code''));
          name = str_or_empty (str_or (str_or (map_of corp (ascii ''corp_name''))
                                              (map_of corp (ascii ''name'')))
                                      (Some []));
          ticker = str_or_empty (map_of corp (ascii ''stock_code''))
      in case search_filings http int_of_str (dart self) code (start_date self) (end_date self)
                (Some (ascii ''B001,I001'')) 100 of
           None \<Rightarrow> None
         | Some (sent, Inl e) \<Rightarrow> Some (sent, Inl e)
         | Some (sent, Inr filings) \<Rightarrow>
             (case matching_items self filings of
                Inl e \<Rightarrow> Some (sent, Inl e)
              | Inr matches \<Rightarrow>
                  Some (sent, Inr \<lparr>corp_code = code, corp_name = name, stock_code = ticker,
                                   has_post_dividend_provision = (matches \<noteq> []),
                                   matching_reports = matches\<rparr>)))"

text \<open>
  The specification's words for the result of \<open>evaluate_company\<close>: the title of a
  disclosure is its \<open>report_nm\<close> field (empty when absent), and a title matches when it
  contains a configured keyword.
\<close>

definition report_title :: "json \<Rightarrow> pystr" where
  "report_title item =
     (case item of
        JObj d \<Rightarrow> (case map_of d (ascii ''report_nm'') of Some (JStr s) \<Rightarrow> s | _ \<Rightarrow> [])
      | _ \<Rightarrow> [])"

definition title_matches :: "pystr list \<Rightarrow> json \<Rightarrow> bool" where
  "title_matches kws item \<longleftrightarrow> list_ex (\<lambda>kw. str_contains kw (report_title item)) kws"

definition has_string_title :: "json \<Rightarrow> bool" where
  "has_string_title item \<longleftrightarrow>
     (case item of
        JObj d \<Rightarrow> (case map_of d (ascii ''report_nm'') of
                     None \<Rightarrow> True | Some (JStr s) \<Rightarrow> True | Some _ \<Rightarrow> False)
      | _ \<Rightarrow> False)"

section \<open>Example services and inputs\<close>

text \<open>
  Fake services and inputs on which the properties below are run. \<open>int_of_decimal\<close> is
  \<open>int()\<close> on the strings made of ASCII digits only, the one instance of the parameter
  the examples need. The items of a page are the page number, so that the order of the
  result shows the order of the pages.
\<close>

definition int_of_decimal :: "pystr \<Rightarrow> int option" where
  "int_of_decimal s =
     (if s \<noteq> [] \<and> list_all (\<lambda>c. 48 \<le> c \<and> c \<le> 57) s
      then Some (foldl (\<lambda>a c. 10 * a + int (c - 48)) 0 s) else None)"

definition example_client :: dart_client where
  "example_client = \<lparr>api_key = ascii ''key''\<rparr>"

definition service_three_pages :: "dict \<Rightarrow> error + dict" where
  "service_three_pages rq =
     Inr [(ascii ''status'', JStr (ascii ''000'')),
          (ascii ''total_page'', JInt 3),
          (ascii ''list'', JArr [dict_get rq (ascii ''page_no'')])]"

definition service_total_on_first_page :: "dict \<Rightarrow> error + dict" where
  "service_total_on_first_page rq =
     Inr ((if dict_get rq (ascii ''page_no'') = JInt 1 then [(ascii ''total_page'', JInt 3)] else [])
          @ [(ascii ''status'', JStr (ascii ''000'')),
             (ascii ''list'', JArr [dict_get rq (ascii ''page_no'')])])"

definition service_error_on_page_two :: "dict \<Rightarrow> error + dict" where
  "service_error_on_page_two rq =
     (if dict_get rq (ascii ''page_no'') = JInt 2
      then Inr [(ascii ''status'', JStr (ascii ''013'')),
                (ascii ''message'', JStr (ascii ''no data''))]
      else service_three_pages rq)"

definition service_without_total :: "dict \<Rightarrow> error + dict" where
  "service_without_total rq = Inr [(ascii ''list'', JArr [JInt 7])]"

definition service_null_list_on_page_two :: "dict \<Rightarrow> error + dict" where
  "service_null_list_on_page_two rq =
     Inr [(ascii ''status'', JStr (ascii ''000'')),
          (ascii ''total_page'', JInt 3),
          (ascii ''list'',
             if dict_get rq (ascii ''page_no'') = JInt 2 then JNull
             else JArr [dict_get rq (ascii ''page_no'')])]"

definition example_request :: "int \<Rightarrow> dict" where
  "example_request k =
     page_request example_client (ascii ''00126380'') (ascii ''20240101'') (ascii ''20241231'')
       None 50 k"

definition filing :: "pystr \<Rightarrow> json" where
  "filing title = JObj [(ascii ''report_nm'', JStr title)]"

definition service_two_titles :: "dict \<Rightarrow> error + dict" where
  "service_two_titles rq =
     Inr [(ascii ''status'', JStr (ascii ''000'')),
          (ascii ''list'',
             JArr [filing [51221, 44288, 48320, 44221, 50640, 32, 44288, 54620, 32, 49324, 54637],
                   filing [49892, 51201, 48156, 54364]])]"

definition example_checker :: checker where
  "example_checker =
     DividendPolicyChecker_init example_client (ascii ''20240101'') (ascii ''20241231'') None"

definition example_corp :: strdict where
  "example_corp =
     [(ascii ''stock_code'', ascii ''005930''), (ascii ''name'', ascii ''Sample''),
      (ascii ''market'', ascii ''KOSPI''), (ascii ''corp_code'', ascii ''00126380''),
      (ascii ''corp_name'', ascii ''Sample Co'')]"

definition example_codes :: "strdict list" where
  "example_codes =
     [[(ascii ''corp_code'', ascii ''00126380''), (ascii ''corp_name'', ascii ''Old name''),
       (ascii ''stock_code'', ascii ''005930'')],
      [(ascii ''corp_code'', ascii ''00126380''), (ascii ''corp_name'', ascii ''Sample Co''),
       (ascii ''stock_code'', ascii ''005930'')],
      [(ascii ''corp_code'', []), (ascii ''corp_name'', ascii ''No code''),
       (ascii ''stock_code'', ascii ''005930'')],
      [(ascii ''corp_code'', ascii ''00999999''), (ascii ''corp_name'', ascii ''Unlisted''),
       (ascii ''stock_code'', [])]]"

definition krx_without_block :: "dict \<Rightarrow> error + dict" where
  "krx_without_block payload =
     Inr [(ascii ''total'', JInt 0), (ascii ''error'', JStr (ascii ''LOGOUT''))]"

definition krx_with_block :: "dict \<Rightarrow> error + dict" where
  "krx_with_block payload =
     Inr [(ascii ''OutBlock_1'',
             JArr [JObj [(ascii ''ISU_SRT_CD'', JStr (ascii ''005930''))]])]"

section \<open>Properties of the search\<close>

subsection \<open>Literals\<close>

lemma ascii_eq_iff [simp]: "ascii s = ascii t \<longleftrightarrow> s = t"
  by (simp add: ascii_def inj_map_eq_map[OF inj_of_char])

lemma ascii_empty_iff [simp]: "ascii s = [] \<longleftrightarrow> s = []"
  by (simp add: ascii_def)

lemma page_no_request [simp]:
  "dict_get (page_request self code bgn fin types psize k) (ascii ''page_no'') = JInt k"
  by (simp add: page_request_def sent_params_def search_params_def dict_get_def)

subsection \<open>One request, one step of the loop\<close>

lemma get_json_success:
  assumes "http (sent_params self params) = Inr data"
    and "status_ok (dict_get data (ascii ''status''))"
  shows "get_json http self params = Inr data"
  using assms by (simp add: get_json_def)

lemma get_json_failure:
  assumes "http (sent_params self params) = Inr data"
    and "\<not> status_ok (dict_get data (ascii ''status''))"
  shows "get_json http self params =
           Inl (DartError (dict_get data (ascii ''status''))
                  (py_or (dict_get data (ascii ''message'')) (JStr (ascii ''Unexpected response''))))"
  using assms by (simp add: get_json_def)

lemma search_pages_next:
  assumes "get_json http self (params page) = Inr data"
    and "page_items data = Inr items"
    and "total_pages int_of_str data = Inr n"
    and "page < n"
  shows "search_pages http int_of_str self params page filings sent =
           search_pages http int_of_str self params (page + 1) (filings @ items)
             (sent @ [sent_params self (params page)])"
  using assms by (subst search_pages.simps) simp

lemma search_pages_last:
  assumes "get_json http self (params page) = Inr data"
    and "page_items data = Inr items"
    and "total_pages int_of_str data = Inr n"
    and "n \<le> page"
  shows "search_pages http int_of_str self params page filings sent =
           Some (sent @ [sent_params self (params page)], Inr (filings @ items))"
  using assms by (subst search_pages.simps) simp

lemma search_pages_raise:
  assumes "get_json http self (params page) = Inl e"
  shows "search_pages http int_of_str self params page filings sent =
           Some (sent @ [sent_params self (params page)], Inl e)"
  using assms by (subst search_pages.simps) simp

lemma search_pages_advance:
  assumes "\<And>k. page \<le> k \<Longrightarrow> k < m \<Longrightarrow>
             get_json http self (params k) = Inr (data k) \<and>
             page_items (data k) = Inr (its k) \<and>
             (\<exists>n. total_pages int_of_str (data k) = Inr n \<and> k < n)"
    and "page \<le> m"
  shows "search_pages http int_of_str self params page filings sent =
           search_pages http int_of_str self params m
             (filings @ concat (map its [page..m - 1]))
             (sent @ map (\<lambda>k. sent_params self (params k)) [page..m - 1])"
  using assms
proof (induction "nat (m - page)" arbitrary: page filings sent)
  case 0
  then have "page = m" by simp
  then show ?case by simp
next
  case (Suc d)
  then have lt: "page < m" by linarith
  from Suc.prems(1)[of page] lt obtain n where
    g: "get_json http self (params page) = Inr (data page)" and
    i: "page_items (data page) = Inr (its page)" and
    t: "total_pages int_of_str (data page) = Inr n" and
    n: "page < n"
    by auto
  have d: "d = nat (m - (page + 1))" using Suc.hyps(2) by linarith
  have rest: "\<And>k. page + 1 \<le> k \<Longrightarrow> k < m \<Longrightarrow>
             get_json http self (params k) = Inr (data k) \<and>
             page_items (data k) = Inr (its k) \<and>
             (\<exists>n. total_pages int_of_str (data k) = Inr n \<and> k < n)"
    using Suc.prems(1) by simp
  have le: "page + 1 \<le> m" using lt by simp
  have split: "[page..m - 1] = page # [page + 1..m - 1]"
    using lt by (simp add: upto_rec1)
  show ?case
  proof -
    have "search_pages http int_of_str self params page filings sent =
            search_pages http int_of_str self params (page + 1) (filings @ its page)
              (sent @ [sent_params self (params page)])"
      using g i t n by (rule search_pages_next[where params = params and page = page])
    also have "\<dots> = search_pages http int_of_str self params m
             ((filings @ its page) @ concat (map its [page + 1..m - 1]))
             ((sent @ [sent_params self (params page)]) @
                map (\<lambda>k. sent_params self (params k)) [page + 1..m - 1])"
      using d rest le by (rule Suc.hyps(1))
    finally show ?thesis by (simp add: split)
  qed
qed

subsection \<open>The search as a whole\<close>

lemma search_filings_run:
  assumes cc: "code \<noteq> []" and m: "1 \<le> m"
    and pages: "\<And>k. 1 \<le> k \<Longrightarrow> k \<le> m \<Longrightarrow>
       http (page_request self code sd ed dt pc k) = Inr (data k) \<and>
       status_ok (dict_get (data k) (ascii ''status'')) \<and>
       page_items (data k) = Inr (its k) \<and>
       total_pages int_of_str (data k) = Inr (tp k) \<and>
       (k < m \<longrightarrow> k < tp k)"
    and stop: "tp m \<le> m"
  shows "search_filings http int_of_str self code sd ed dt pc =
           Some (map (page_request self code sd ed dt pc) [1..m],
                 Inr (concat (map its [1..m])))"
proof -
  let ?params = "search_params code sd ed dt pc"
  have got: "get_json http self (?params k) = Inr (data k)" if "1 \<le> k" "k \<le> m" for k
    using pages[OF that] by (intro get_json_success) (simp_all add: page_request_def)
  have before: "get_json http self (?params k) = Inr (data k) \<and>
             page_items (data k) = Inr (its k) \<and>
             (\<exists>n. total_pages int_of_str (data k) = Inr n \<and> k < n)"
    if "1 \<le> k" "k < m" for k
    using got[of k] pages[of k] that by simp
  have "search_pages http int_of_str self ?params 1 [] [] =
          search_pages http int_of_str self ?params m
            ([] @ concat (map its [1..m - 1]))
            ([] @ map (\<lambda>k. sent_params self (?params k)) [1..m - 1])"
    using before m by (rule search_pages_advance)
  also have "\<dots> = Some (([] @ map (\<lambda>k. sent_params self (?params k)) [1..m - 1])
                          @ [sent_params self (?params m)],
                        Inr (([] @ concat (map its [1..m - 1])) @ its m))"
    using got[of m] pages[of m] m stop
    by (intro search_pages_last[where params = ?params and page = m and data = "data m" and n = "tp m"]) simp_all
  also have "\<dots> = Some (map (\<lambda>k. sent_params self (?params k)) [1..m],
                        Inr (concat (map its [1..m])))"
    using m by (simp add: upto_rec2[of 1 m])
  finally show ?thesis
    using cc by (simp add: search_filings_def page_request_def[abs_def])
qed

lemma example_request_page_no [simp]:
  "dict_get (example_request k) (ascii ''page_no'') = JInt k"
  by (simp add: example_request_def)

text \<open>
  Claim C8. A search with an empty company code fails at once with the validation error
  \<open>ValueError("code is required")\<close>: the list of requests issued is empty and no
  items are returned, whatever the service would have answered.
\<close>

theorem search_filings_empty_corp_code:
  "search_filings http int_of_str self [] bgn fin types psize =
     Some ([], Inl (ValueError ''corp_code is required''))"
  by (simp add: search_filings_def)

text \<open>
  Claim C9. When the first page has a success status and its \<open>total_page\<close> field is
  absent, null, zero or any other falsy value, the total is taken to be 1: the search
  issues the request of page 1 only and returns the items of that page.
\<close>

theorem search_filings_falsy_total_page:
  assumes "code \<noteq> []"
    and "http (page_request self code bgn fin types psize 1) = Inr data"
    and "status_ok (dict_get data (ascii ''status''))"
    and "\<not> truthy (dict_get data (ascii ''total_page''))"
    and "page_items data = Inr items"
  shows "total_pages int_of_str data = Inr 1 \<and>
         search_filings http int_of_str self code bgn fin types psize =
           Some ([page_request self code bgn fin types psize 1],
                 Inr items)"
proof -
  let ?params = "search_params code bgn fin types psize"
  have one: "total_pages int_of_str data = Inr 1"
    using assms(4) by (simp add: total_pages_def py_or_def)
  have "get_json http self (?params 1) = Inr data"
    using assms(2,3) by (intro get_json_success) (simp_all add: page_request_def)
  then have "search_pages http int_of_str self ?params 1 [] [] =
          Some ([] @ [sent_params self (?params 1)], Inr ([] @ items))"
    using assms(5) one by (rule search_pages_last) simp
  then show ?thesis
    using assms(1) one by (simp add: search_filings_def page_request_def)
qed

theorem search_filings_falsy_total_page_witness:
  "search_filings service_without_total int_of_decimal example_client
     (ascii ''00126380'') (ascii ''20240101'') (ascii ''20241231'') None 50 =
   Some ([example_request 1], Inr [JInt 7])"
proof -
  let ?data = "[(ascii ''list'', JArr [JInt 7])]"
  have c: "ascii ''00126380'' \<noteq> []" by simp
  have r: "service_without_total (page_request example_client (ascii ''00126380'')
              (ascii ''20240101'') (ascii ''20241231'') None 50 1) = Inr ?data"
    by (simp add: service_without_total_def)
  have s: "status_ok (dict_get ?data (ascii ''status''))"
    by (simp add: status_ok_def dict_get_def)
  have t: "\<not> truthy (dict_get ?data (ascii ''total_page''))"
    by (simp add: dict_get_def)
  have i: "page_items ?data = Inr [JInt 7]"
    by (simp add: page_items_def dict_get_def py_or_def)
  show ?thesis
    using search_filings_falsy_total_page[where http = service_without_total
        and int_of_str = int_of_decimal, OF c r s t i]
    by (simp add: example_request_def)
qed

text \<open>
  Claim C1, as amended. When every page from 1 to \<open>n\<close> answers with a success status and
  declares the total-page count \<open>n\<close> (\<open>n \<ge> 1\<close>), the search issues exactly the
  requests of pages 1 to \<open>n\<close>, in increasing order, and returns the concatenation of the
  item lists of those pages in page order, for every page size.
\<close>

theorem search_filings_all_pages:
  assumes "code \<noteq> []" and "1 \<le> n"
    and "\<And>k. 1 \<le> k \<Longrightarrow> k \<le> n \<Longrightarrow>
       http (page_request self code bgn fin types psize k)
         = Inr (data k) \<and>
       status_ok (dict_get (data k) (ascii ''status'')) \<and>
       page_items (data k) = Inr (its k) \<and>
       total_pages int_of_str (data k) = Inr n"
  shows "search_filings http int_of_str self code bgn fin types psize =
           Some (map (page_request self code bgn fin types psize) [1..n],
                 Inr (concat (map its [1..n])))"
  using assms(1,2)
proof (rule search_filings_run[where tp = "\<lambda>k. n"])
  show "n \<le> n" by simp
  fix k :: int assume "1 \<le> k" "k \<le> n"
  then show "http (page_request self code bgn fin types psize k)
         = Inr (data k) \<and>
       status_ok (dict_get (data k) (ascii ''status'')) \<and>
       page_items (data k) = Inr (its k) \<and>
       total_pages int_of_str (data k) = Inr n \<and> (k < n \<longrightarrow> k < n)"
    using assms(3)[of k] by simp
qed

theorem search_filings_all_pages_witness:
  "search_filings service_three_pages int_of_decimal example_client
     (ascii ''00126380'') (ascii ''20240101'') (ascii ''20241231'') None 50 =
   Some (map (page_request example_client (ascii ''00126380'') (ascii ''20240101'')
                (ascii ''20241231'') None 50) [1, 2, 3],
         Inr [JInt 1, JInt 2, JInt 3])"
proof -
  have c: "ascii ''00126380'' \<noteq> []" by simp
  have n: "(1::int) \<le> 3" by simp
  have p: "service_three_pages (page_request example_client (ascii ''00126380'')
              (ascii ''20240101'') (ascii ''20241231'') None 50 k)
            = Inr ((\<lambda>k. [(ascii ''status'', JStr (ascii ''000'')),
                        (ascii ''total_page'', JInt 3),
                        (ascii ''list'', JArr [JInt k])]) k) \<and>
       status_ok (dict_get ((\<lambda>k. [(ascii ''status'', JStr (ascii ''000'')),
                        (ascii ''total_page'', JInt 3),
                        (ascii ''list'', JArr [JInt k])]) k) (ascii ''status'')) \<and>
       page_items ((\<lambda>k. [(ascii ''status'', JStr (ascii ''000'')),
                        (ascii ''total_page'', JInt 3),
                        (ascii ''list'', JArr [JInt k])]) k) = Inr ((\<lambda>k. [JInt k]) k) \<and>
       total_pages int_of_decimal ((\<lambda>k. [(ascii ''status'', JStr (ascii ''000'')),
                        (ascii ''total_page'', JInt 3),
                        (ascii ''list'', JArr [JInt k])]) k) = Inr 3" for k
    by (simp add: service_three_pages_def status_ok_def page_items_def total_pages_def
          py_or_def) (simp add: dict_get_def)
  show ?thesis
    using search_filings_all_pages[of "ascii ''00126380''" 3 service_three_pages example_client
        "ascii ''20240101''" "ascii ''20241231''" None 50 _ _ int_of_decimal, OF c n p]
    by (simp add: upto_rec1)
qed

text \<open>
  Claim C1 as first stated only asks the first page to declare the total. The loop reads
  the total again from every response, so a service that declares three pages on page 1
  and no total afterwards (all statuses \<open>"000"\<close>) is asked for two pages only.
\<close>

theorem search_first_page_total_counterexample:
  "service_total_on_first_page (example_request 1) =
     Inr [(ascii ''total_page'', JInt 3), (ascii ''status'', JStr (ascii ''000'')),
          (ascii ''list'', JArr [JInt 1])]
   \<and> service_total_on_first_page (example_request 2) =
     Inr [(ascii ''status'', JStr (ascii ''000'')), (ascii ''list'', JArr [JInt 2])]
   \<and> service_total_on_first_page (example_request 3) =
     Inr [(ascii ''status'', JStr (ascii ''000'')), (ascii ''list'', JArr [JInt 3])]
   \<and> search_filings service_total_on_first_page int_of_decimal example_client
        (ascii ''00126380'') (ascii ''20240101'') (ascii ''20241231'') None 50
      = Some ([example_request 1, example_request 2], Inr [JInt 1, JInt 2])
   \<and> search_filings service_total_on_first_page int_of_decimal example_client
        (ascii ''00126380'') (ascii ''20240101'') (ascii ''20241231'') None 50
      \<noteq> Some ([example_request 1, example_request 2, example_request 3],
               Inr [JInt 1, JInt 2, JInt 3])"
proof -
  let ?data = "\<lambda>k::int. (if k = 1 then [(ascii ''total_page'', JInt 3)] else [])
          @ [(ascii ''status'', JStr (ascii ''000'')), (ascii ''list'', JArr [JInt k])]"
  have pages: "service_total_on_first_page (page_request example_client (ascii ''00126380'')
              (ascii ''20240101'') (ascii ''20241231'') None 50 k) = Inr (?data k) \<and>
       status_ok (dict_get (?data k) (ascii ''status'')) \<and>
       page_items (?data k) = Inr ((\<lambda>k. [JInt k]) k) \<and>
       total_pages int_of_decimal (?data k) = Inr ((\<lambda>k. if k = 1 then 3 else 1) k) \<and>
       (k < 2 \<longrightarrow> k < (\<lambda>k. if k = 1 then 3 else 1) k)"
    if "1 \<le> k" "k \<le> 2" for k
    using that
    by (simp add: service_total_on_first_page_def status_ok_def page_items_def total_pages_def
          py_or_def) (simp add: dict_get_def)
  have run: "search_filings service_total_on_first_page int_of_decimal example_client
        (ascii ''00126380'') (ascii ''20240101'') (ascii ''20241231'') None 50
      = Some (map (page_request example_client (ascii ''00126380'')
              (ascii ''20240101'') (ascii ''20241231'') None 50) [1..2],
              Inr (concat (map (\<lambda>k. [JInt k]) [1..2])))"
    by (rule search_filings_run[where data = ?data and tp = "\<lambda>k. if k = 1 then 3 else 1"])
       (simp_all add: pages)
  have res: "search_filings service_total_on_first_page int_of_decimal example_client
        (ascii ''00126380'') (ascii ''20240101'') (ascii ''20241231'') None 50
      = Some ([example_request 1, example_request 2], Inr [JInt 1, JInt 2])"
    unfolding run by (simp add: upto_rec1 example_request_def)
  show ?thesis
    unfolding res by (simp add: service_total_on_first_page_def)
qed

text \<open>
  Claim C2. When the search reaches page \<open>k\<close> (every page before it answered with a
  success status and declared more pages) and the response of page \<open>k\<close> carries a status
  other than \<open>"000"\<close> (an absent status counting as success), the search fails with the
  error that carries the upstream status and message. The result holds no items, so the
  items of the pages before \<open>k\<close> are lost, and the requests issued are those of pages 1
  to \<open>k\<close>: none after \<open>k\<close>.
\<close>

theorem search_filings_error_status:
  assumes "code \<noteq> []" and "1 \<le> k"
    and "\<And>j. 1 \<le> j \<Longrightarrow> j < k \<Longrightarrow>
       http (page_request self code bgn fin types psize j)
         = Inr (data j) \<and>
       status_ok (dict_get (data j) (ascii ''status'')) \<and>
       page_items (data j) = Inr (its j) \<and>
       (\<exists>n. total_pages int_of_str (data j) = Inr n \<and> j < n)"
    and "http (page_request self code bgn fin types psize k) = Inr bad"
    and "\<not> status_ok (dict_get bad (ascii ''status''))"
  shows "search_filings http int_of_str self code bgn fin types psize =
           Some (map (page_request self code bgn fin types psize) [1..k],
                 Inl (DartError (dict_get bad (ascii ''status''))
                        (py_or (dict_get bad (ascii ''message''))
                               (JStr (ascii ''Unexpected response'')))))"
proof -
  let ?params = "search_params code bgn fin types psize"
  let ?e = "DartError (dict_get bad (ascii ''status''))
                        (py_or (dict_get bad (ascii ''message''))
                               (JStr (ascii ''Unexpected response'')))"
  have before: "get_json http self (?params j) = Inr (data j) \<and>
             page_items (data j) = Inr (its j) \<and>
             (\<exists>n. total_pages int_of_str (data j) = Inr n \<and> j < n)"
    if "1 \<le> j" "j < k" for j
    using assms(3)[OF that] by (simp add: get_json_success page_request_def)
  have bad: "get_json http self (?params k) = Inl ?e"
    using assms(4,5) by (intro get_json_failure) (simp_all add: page_request_def)
  have "search_pages http int_of_str self ?params 1 [] [] =
          search_pages http int_of_str self ?params k
            ([] @ concat (map its [1..k - 1]))
            ([] @ map (\<lambda>j. sent_params self (?params j)) [1..k - 1])"
    using before assms(2) by (rule search_pages_advance)
  also have "\<dots> = Some (([] @ map (\<lambda>j. sent_params self (?params j)) [1..k - 1])
                          @ [sent_params self (?params k)], Inl ?e)"
    using bad by (rule search_pages_raise)
  also have "\<dots> = Some (map (\<lambda>j. sent_params self (?params j)) [1..k], Inl ?e)"
    using assms(2) by (simp add: upto_rec2[of 1 k])
  finally show ?thesis
    using assms(1) by (simp add: search_filings_def page_request_def[abs_def])
qed

theorem search_filings_error_status_witness:
  "search_filings service_error_on_page_two int_of_decimal example_client
     (ascii ''00126380'') (ascii ''20240101'') (ascii ''20241231'') None 50 =
   Some ([example_request 1, example_request 2],
         Inl (DartError (JStr (ascii ''013'')) (JStr (ascii ''no data''))))"
proof -
  let ?data = "\<lambda>k::int. [(ascii ''status'', JStr (ascii ''000'')),
                        (ascii ''total_page'', JInt 3),
                        (ascii ''list'', JArr [JInt k])]"
  let ?bad = "[(ascii ''status'', JStr (ascii ''013'')),
              (ascii ''message'', JStr (ascii ''no data''))]"
  have c: "ascii ''00126380'' \<noteq> []" by simp
  have k: "(1::int) \<le> 2" by simp
  have before: "service_error_on_page_two (page_request example_client (ascii ''00126380'')
              (ascii ''20240101'') (ascii ''20241231'') None 50 j) = Inr (?data j) \<and>
       status_ok (dict_get (?data j) (ascii ''status'')) \<and>
       page_items (?data j) = Inr ((\<lambda>k. [JInt k]) j) \<and>
       (\<exists>n. total_pages int_of_decimal (?data j) = Inr n \<and> j < n)"
    if "1 \<le> j" "j < 2" for j
    using that
    by (simp add: service_error_on_page_two_def service_three_pages_def status_ok_def
          page_items_def total_pages_def py_or_def) (simp add: dict_get_def)
  have bad: "service_error_on_page_two (page_request example_client (ascii ''00126380'')
              (ascii ''20240101'') (ascii ''20241231'') None 50 2) = Inr ?bad"
    by (simp add: service_error_on_page_two_def)
  have st: "\<not> status_ok (dict_get ?bad (ascii ''status''))"
    by (simp add: status_ok_def dict_get_def)
  show ?thesis
    using search_filings_error_status[where data = ?data and its = "\<lambda>k. [JInt k]",
        OF c k before bad st]
    by (simp add: upto_rec1 example_request_def dict_get_def py_or_def)
qed

text \<open>
  Claim C10. In a search of \<open>m\<close> pages with success statuses, a page \<open>j\<close> whose
  \<open>list\<close> field is absent or null contributes no items and raises no error: the search
  still issues the requests of pages 1 to \<open>m\<close> and returns the concatenation of the
  items of the other pages, in page order.
\<close>

theorem search_filings_missing_list:
  assumes "code \<noteq> []" and "1 \<le> j" and "j \<le> m"
    and "\<And>k. 1 \<le> k \<Longrightarrow> k \<le> m \<Longrightarrow>
       http (page_request self code bgn fin types psize k) = Inr (data k) \<and>
       status_ok (dict_get (data k) (ascii ''status'')) \<and>
       total_pages int_of_str (data k) = Inr (tp k) \<and>
       (k < m \<longrightarrow> k < tp k)"
    and "tp m \<le> m"
    and "\<And>k. 1 \<le> k \<Longrightarrow> k \<le> m \<Longrightarrow> k \<noteq> j \<Longrightarrow> page_items (data k) = Inr (its k)"
    and "map_of (data j) (ascii ''list'') = None \<or> map_of (data j) (ascii ''list'') = Some JNull"
  shows "page_items (data j) = Inr [] \<and>
         search_filings http int_of_str self code bgn fin types psize =
           Some (map (page_request self code bgn fin types psize) [1..m],
                 Inr (concat (map its ([1..j - 1] @ [j + 1..m]))))"
proof -
  let ?its = "its(j := [])"
  have none: "page_items (data j) = Inr []"
    using assms(7) by (auto simp: page_items_def dict_get_def py_or_def)
  have "search_filings http int_of_str self code bgn fin types psize =
           Some (map (page_request self code bgn fin types psize) [1..m],
                 Inr (concat (map ?its [1..m])))"
    using assms(1) _ _ assms(5)
  proof (rule search_filings_run)
    show "1 \<le> m" using assms(2,3) by simp
    fix k :: int assume k: "1 \<le> k" "k \<le> m"
    show "http (page_request self code bgn fin types psize k) = Inr (data k) \<and>
       status_ok (dict_get (data k) (ascii ''status'')) \<and>
       page_items (data k) = Inr (?its k) \<and>
       total_pages int_of_str (data k) = Inr (tp k) \<and> (k < m \<longrightarrow> k < tp k)"
      using assms(4)[OF k] assms(6)[OF k] none by (cases "k = j") simp_all
  qed
  moreover have "[1..m] = [1..j - 1] @ j # [j + 1..m]"
    using assms(2,3) by (rule upto_split3)
  moreover have "map ?its [1..j - 1] = map its [1..j - 1]" by simp
  moreover have "map ?its [j + 1..m] = map its [j + 1..m]" by simp
  ultimately show ?thesis using none by simp
qed

theorem search_filings_missing_list_witness:
  "search_filings service_null_list_on_page_two int_of_decimal example_client
     (ascii ''00126380'') (ascii ''20240101'') (ascii ''20241231'') None 50 =
   Some ([example_request 1, example_request 2, example_request 3], Inr [JInt 1, JInt 3])"
proof -
  let ?data = "\<lambda>k::int. [(ascii ''status'', JStr (ascii ''000'')),
          (ascii ''total_page'', JInt 3),
          (ascii ''list'', if k = 2 then JNull else JArr [JInt k])]"
  have c: "ascii ''00126380'' \<noteq> []" by simp
  have j: "(1::int) \<le> 2" "(2::int) \<le> 3" by simp_all
  have pages: "service_null_list_on_page_two (page_request example_client (ascii ''00126380'')
              (ascii ''20240101'') (ascii ''20241231'') None 50 k) = Inr (?data k) \<and>
       status_ok (dict_get (?data k) (ascii ''status'')) \<and>
       total_pages int_of_decimal (?data k) = Inr ((\<lambda>k. 3) k) \<and>
       (k < 3 \<longrightarrow> k < (\<lambda>k. 3) k)"
    if "1 \<le> k" "k \<le> 3" for k
    by (simp add: service_null_list_on_page_two_def status_ok_def total_pages_def py_or_def)
       (simp add: dict_get_def)
  have stop: "(\<lambda>k::int. 3::int) 3 \<le> 3" by simp
  have items: "page_items (?data k) = Inr ((\<lambda>k. [JInt k]) k)"
    if "1 \<le> k" "k \<le> 3" "k \<noteq> 2" for k
    using that by (simp add: page_items_def dict_get_def py_or_def)
  have null: "map_of (?data 2) (ascii ''list'') = None \<or>
              map_of (?data 2) (ascii ''list'') = Some JNull"
    by simp
  show ?thesis
    using search_filings_missing_list[where data = ?data and its = "\<lambda>k. [JInt k]"
        and tp = "\<lambda>k. 3", OF c j pages stop items null]
    by (simp add: upto_rec1 example_request_def)
qed

section \<open>Properties of the keyword match\<close>

lemma starts_with_iff: "starts_with kw s \<longleftrightarrow> (\<exists>suf. s = kw @ suf)"
  by (induction kw s rule: starts_with.induct) auto

lemma str_contains_iff: "str_contains kw s \<longleftrightarrow> (\<exists>pre suf. s = pre @ kw @ suf)"
proof (induction s)
  case Nil
  then show ?case by auto
next
  case (Cons c cs)
  show ?case
  proof
    assume "str_contains kw (c # cs)"
    then consider "starts_with kw (c # cs)" | "str_contains kw cs" by auto
    then show "\<exists>pre suf. c # cs = pre @ kw @ suf"
    proof cases
      case 1
      then obtain suf where "c # cs = kw @ suf" by (auto simp: starts_with_iff)
      then have "c # cs = [] @ kw @ suf" by simp
      then show ?thesis by blast
    next
      case 2
      then obtain pre suf where "cs = pre @ kw @ suf" using Cons.IH by auto
      then have "c # cs = (c # pre) @ kw @ suf" by simp
      then show ?thesis by blast
    qed
  next
    assume "\<exists>pre suf. c # cs = pre @ kw @ suf"
    then obtain pre suf where eq: "c # cs = pre @ kw @ suf" by auto
    show "str_contains kw (c # cs)"
    proof (cases pre)
      case Nil
      then have "starts_with kw (c # cs)" using eq by (auto simp: starts_with_iff)
      then show ?thesis by simp
    next
      case (Cons p ps)
      then have "cs = ps @ kw @ suf" using eq by simp
      then have "str_contains kw cs" using Cons.IH by blast
      then show ?thesis by simp
    qed
  qed
qed

lemma any_keyword_in_string:
  "any_keyword_in kws (JStr title) = Inr (\<exists>kw\<in>set kws. str_contains kw title)"
  by (induction kws) auto

text \<open>
  Claim C6. On a title string, \<open>_matches_policy\<close> returns true exactly when some
  configured keyword occurs in the title as a contiguous run of the same code points
  (nothing is folded or normalised). With the default keywords, the first title of the
  specification, which holds the keyword for the record date, matches, and the second,
  about business results, does not; both titles are written as code points.
\<close>

theorem matches_policy_substring:
  "matches_policy self (JStr title) =
     Inr (\<exists>kw\<in>set (policy_keywords self). \<exists>pre suf. title = pre @ kw @ suf)
   \<and> matches_policy (DividendPolicyChecker_init client bgn fin None)
       (JStr [50, 48, 50, 52, 45380, 32, 48176, 45817, 44592, 51456, 51068, 32, 48320, 44221,
              32, 44277, 49884]) = Inr True
   \<and> matches_policy (DividendPolicyChecker_init client bgn fin None)
       (JStr [50689, 50629, 49892, 51201, 32, 48156, 54364]) = Inr False"
proof (intro conjI)
  show "matches_policy self (JStr title) =
     Inr (\<exists>kw\<in>set (policy_keywords self). \<exists>pre suf. title = pre @ kw @ suf)"
    by (simp add: matches_policy_def any_keyword_in_string str_contains_iff)
  show "matches_policy (DividendPolicyChecker_init client bgn fin None)
       (JStr [50, 48, 50, 52, 45380, 32, 48176, 45817, 44592, 51456, 51068, 32, 48320, 44221,
              32, 44277, 49884]) = Inr True"
    by (simp add: matches_policy_def DividendPolicyChecker_init_def DEFAULT_KEYWORDS_def)
  show "matches_policy (DividendPolicyChecker_init client bgn fin None)
       (JStr [50689, 50629, 49892, 51201, 32, 48156, 54364]) = Inr False"
    by (simp add: matches_policy_def DividendPolicyChecker_init_def DEFAULT_KEYWORDS_def)
qed

section \<open>Properties of the registry index\<close>

lemma foldl_index_entry:
  "foldl index_entry index codes t =
     (case filter (\<lambda>e. entry_stock_code e = t \<and> entry_stock_code e \<noteq> [] \<and> entry_corp_code e \<noteq> []) codes of
        [] \<Rightarrow> index t
      | e # es \<Rightarrow> Some (last (e # es)))"
proof (induction codes rule: rev_induct)
  case Nil
  then show ?case by simp
next
  case (snoc x xs)
  then show ?case
    by (auto simp: index_entry_def Let_def split: list.splits)
qed

lemma py_strip_nonempty: "py_strip s \<noteq> [] \<Longrightarrow> s \<noteq> []"
  by (auto simp: py_strip_def)

text \<open>
  Claim C4. An entry found in the index has a non-empty ticker and a non-empty code, and
  is stored under its trimmed ticker. For every ticker \<open>t\<close>, the index holds the last
  entry of \<open>codes\<close>, in iteration order, among the entries stored under \<open>t\<close> (those with
  trimmed ticker \<open>t\<close> and a code that is not blank), and nothing when there is none.
\<close>

theorem build_corp_index_last_wins:
  "(\<forall>t e. build_corp_index codes t = Some e \<longrightarrow>
       e \<in> set codes \<and> entry_stock_code e = t \<and>
       str_or_empty (map_of e (ascii ''stock_code'')) \<noteq> [] \<and>
       str_or_empty (map_of e (ascii ''corp_code'')) \<noteq> [])
   \<and> (\<forall>t es. es = filter (\<lambda>e. entry_stock_code e = t \<and> entry_stock_code e \<noteq> []
                                  \<and> entry_corp_code e \<noteq> []) codes \<longrightarrow>
         build_corp_index codes t = (if es = [] then None else Some (last es)))"
proof (intro conjI allI impI)
  fix t es
  assume es: "es = filter (\<lambda>e. entry_stock_code e = t \<and> entry_stock_code e \<noteq> []
                                  \<and> entry_corp_code e \<noteq> []) codes"
  show "build_corp_index codes t = (if es = [] then None else Some (last es))"
    unfolding build_corp_index_def foldl_index_entry es
    by (simp split: list.splits)
next
  fix t e
  assume a: "build_corp_index codes t = Some e"
  let ?es = "filter (\<lambda>e. entry_stock_code e = t \<and> entry_stock_code e \<noteq> []
                                  \<and> entry_corp_code e \<noteq> []) codes"
  from a have ne: "?es \<noteq> []" and e: "e = last ?es"
    unfolding build_corp_index_def foldl_index_entry by (auto split: list.splits)
  have mem: "e \<in> set ?es" unfolding e using ne by (rule last_in_set)
  then have p: "e \<in> set codes" "entry_stock_code e = t" "entry_stock_code e \<noteq> []" "entry_corp_code e \<noteq> []"
    by auto
  have s: "str_or_empty (map_of e (ascii ''stock_code'')) \<noteq> []"
    using p(3) unfolding entry_stock_code_def by (rule py_strip_nonempty)
  have c: "str_or_empty (map_of e (ascii ''corp_code'')) \<noteq> []"
    using p(4) unfolding entry_corp_code_def by (rule py_strip_nonempty)
  show "e \<in> set codes" by (rule p(1))
  show "entry_stock_code e = t" by (rule p(2))
  show "str_or_empty (map_of e (ascii ''stock_code'')) \<noteq> []" by (rule s)
  show "str_or_empty (map_of e (ascii ''corp_code'')) \<noteq> []" by (rule c)
qed

theorem build_corp_index_last_wins_witness:
  "build_corp_index example_codes (ascii ''005930'') = Some (example_codes ! 1)
   \<and> build_corp_index example_codes [] = None"
proof -
  have f1: "filter (\<lambda>e. entry_stock_code e = ascii ''005930'' \<and> entry_stock_code e \<noteq> []
                                  \<and> entry_corp_code e \<noteq> []) example_codes
            = [example_codes ! 0, example_codes ! 1]"
    by (simp add: example_codes_def entry_stock_code_def entry_corp_code_def str_or_empty_def
          py_strip_def) (simp add: ascii_def py_isspace_def)
  have f2: "filter (\<lambda>e. entry_stock_code e = [] \<and> entry_stock_code e \<noteq> []
                                  \<and> entry_corp_code e \<noteq> []) example_codes = []"
    by simp
  show ?thesis
    using build_corp_index_last_wins[of example_codes, THEN conjunct2, rule_format, OF f1[symmetric]]
      build_corp_index_last_wins[of example_codes, THEN conjunct2, rule_format, OF f2[symmetric]]
    by simp
qed

section \<open>Properties of the constituents\<close>

text \<open>
  Claim C7. When the parsed response has no \<open>OutBlock_1\<close> key, \<open>fetch_kospi200\<close> fails
  with \<open>KrxError\<close>, an error of its own kind and not the exception of the transport;
  when the key holds a list of rows, it returns these rows.
\<close>

theorem fetch_kospi200_result_block:
  assumes "post_json (krx_payload today trade_date) = Inr data"
  shows "(map_of data (ascii ''OutBlock_1'') = None \<longrightarrow>
            fetch_kospi200 post_json today trade_date = Inl (KrxError (sort (map fst data))))
       \<and> (\<forall>rows. map_of data (ascii ''OutBlock_1'') = Some (JArr rows) \<longrightarrow>
            fetch_kospi200 post_json today trade_date = Inr rows)"
  using assms by (auto simp: fetch_kospi200_def dict_get_def py_or_def)

theorem fetch_kospi200_result_block_witness:
  "fetch_kospi200 krx_without_block (ascii ''20241104'') None =
     Inl (KrxError [ascii ''error'', ascii ''total''])
   \<and> fetch_kospi200 krx_with_block (ascii ''20241104'') (Some (ascii ''20241101'')) =
     Inr [JObj [(ascii ''ISU_SRT_CD'', JStr (ascii ''005930''))]]"
proof -
  have a: "krx_without_block (krx_payload (ascii ''20241104'') None) =
             Inr [(ascii ''total'', JInt 0), (ascii ''error'', JStr (ascii ''LOGOUT''))]"
    by (simp add: krx_without_block_def)
  have b: "krx_with_block (krx_payload (ascii ''20241104'') (Some (ascii ''20241101''))) =
             Inr [(ascii ''OutBlock_1'',
                    JArr [JObj [(ascii ''ISU_SRT_CD'', JStr (ascii ''005930''))]])]"
    by (simp add: krx_with_block_def)
  have lt: "ascii ''error'' < ascii ''total''"
    by (simp add: ascii_def)
  show ?thesis
    using fetch_kospi200_result_block[where post_json = krx_without_block, OF a]
      fetch_kospi200_result_block[where post_json = krx_with_block, OF b] lt
    by (simp add: less_le_not_le insort_is_Cons)
qed

lemma normalize_constituents_length:
  "length (normalize_constituents entries) \<le> length entries"
  by (induction entries) (auto split: option.splits)

text \<open>
  Claim C3. The rows of the output are expected to have a non-empty ticker and name. The
  test for emptiness comes before \<open>strip()\<close>, so a row whose ticker is a single space
  passes it and comes out with the empty ticker.
\<close>

theorem normalize_constituents_blank_ticker:
  "normalize_constituents [[(ascii ''ISU_SRT_CD'', [32]), (ascii ''ISU_ABBRV'', [88])]] =
     [[(ascii ''stock_code'', []), (ascii ''name'', [88]), (ascii ''market'', ascii ''KOSPI'')]]"
  by (simp add: normalize_entry_def str_or_def str_or_empty_def py_strip_def py_isspace_def ascii_def)

section \<open>Properties of the evaluation\<close>

lemma matches_policy_title:
  assumes "has_string_title (JObj d)"
  shows "matches_policy self (case map_of d (ascii ''report_nm'') of None \<Rightarrow> JStr [] | Some v \<Rightarrow> v)
           = Inr (title_matches (policy_keywords self) (JObj d))"
  using assms
  by (auto simp: has_string_title_def matches_policy_def any_keyword_in_string title_matches_def
        report_title_def list_ex_iff split: option.splits json.splits)

lemma matching_items_filter:
  assumes "\<forall>item\<in>set filings. has_string_title item"
  shows "matching_items self filings = Inr (filter (title_matches (policy_keywords self)) filings)"
  using assms
proof (induction filings)
  case Nil
  then show ?case by simp
next
  case (Cons item filings)
  then obtain d where d: "item = JObj d"
    by (cases item) (auto simp: has_string_title_def)
  with Cons.prems have "has_string_title (JObj d)" by simp
  then have m: "matches_policy self (case map_of d (ascii ''report_nm'') of None \<Rightarrow> JStr [] | Some v \<Rightarrow> v)
           = Inr (title_matches (policy_keywords self) (JObj d))"
    by (rule matches_policy_title)
  have rest: "matching_items self filings = Inr (filter (title_matches (policy_keywords self)) filings)"
    using Cons by simp
  show ?case by (simp add: d m rest)
qed

text \<open>
  Claim C5. When the search returns \<open>filings\<close>, each a dict whose title is a string (or
  absent), \<open>evaluate_company\<close> returns the result whose \<open>matching_reports\<close> are the
  filings whose title contains a configured keyword, in the order fetched, and whose flag
  is true exactly when there is such a filing. The scenario of the specification, a
  list of two disclosures of which only the first title holds a keyword, is run next.
\<close>

theorem evaluate_company_result:
  assumes "search_filings http int_of_str (dart self)
             (str_or_empty (map_of corp (ascii ''corp_code''))) (start_date self) (end_date self)
             (Some (ascii ''B001,I001'')) 100 = Some (sent, Inr filings)"
    and "\<forall>item\<in>set filings. has_string_title item"
  shows "evaluate_company http int_of_str self corp =
           Some (sent, Inr
             \<lparr>corp_code = str_or_empty (map_of corp (ascii ''corp_code'')),
              corp_name = str_or_empty (str_or (str_or (map_of corp (ascii ''corp_name''))
                                                       (map_of corp (ascii ''name''))) (Some [])),
              stock_code = str_or_empty (map_of corp (ascii ''stock_code'')),
              has_post_dividend_provision =
                (\<exists>item\<in>set filings. title_matches (policy_keywords self) item),
              matching_reports = filter (title_matches (policy_keywords self)) filings\<rparr>)"
  using assms(1) matching_items_filter[OF assms(2), of self]
  by (simp add: evaluate_company_def Let_def filter_empty_conv)

theorem evaluate_company_result_witness:
  "evaluate_company service_two_titles int_of_decimal example_checker example_corp =
     Some ([page_request example_client (ascii ''00126380'') (ascii ''20240101'')
              (ascii ''20241231'') (Some (ascii ''B001,I001'')) 100 1],
           Inr \<lparr>corp_code = ascii ''00126380'', corp_name = ascii ''Sample Co'',
                stock_code = ascii ''005930'', has_post_dividend_provision = True,
                matching_reports =
                  [filing [51221, 44288, 48320, 44221, 50640, 32, 44288, 54620, 32, 49324,
                           54637]]\<rparr>)"
proof -
  let ?data = "\<lambda>k::int. [(ascii ''status'', JStr (ascii ''000'')),
          (ascii ''list'',
             JArr [filing [51221, 44288, 48320, 44221, 50640, 32, 44288, 54620, 32, 49324, 54637],
                   filing [49892, 51201, 48156, 54364]])]"
  let ?filings = "[filing [51221, 44288, 48320, 44221, 50640, 32, 44288, 54620, 32, 49324, 54637],
                   filing [49892, 51201, 48156, 54364]]"
  have pages: "service_two_titles (page_request example_client (ascii ''00126380'')
              (ascii ''20240101'') (ascii ''20241231'') (Some (ascii ''B001,I001'')) 100 k)
          = Inr (?data k) \<and>
       status_ok (dict_get (?data k) (ascii ''status'')) \<and>
       page_items (?data k) = Inr ((\<lambda>k. ?filings) k) \<and>
       total_pages int_of_decimal (?data k) = Inr ((\<lambda>k. 1) k) \<and>
       (k < 1 \<longrightarrow> k < (\<lambda>k. 1) k)"
    if "1 \<le> k" "k \<le> 1" for k
    by (simp add: service_two_titles_def status_ok_def page_items_def total_pages_def py_or_def
          dict_get_def)
  have run: "search_filings service_two_titles int_of_decimal (dart example_checker)
             (str_or_empty (map_of example_corp (ascii ''corp_code'')))
             (start_date example_checker) (end_date example_checker)
             (Some (ascii ''B001,I001'')) 100
      = Some ([page_request example_client (ascii ''00126380'') (ascii ''20240101'')
              (ascii ''20241231'') (Some (ascii ''B001,I001'')) 100 1], Inr ?filings)"
    using search_filings_run[where data = ?data and tp = "\<lambda>k. 1" and m = 1
        and its = "\<lambda>k. ?filings" and http = service_two_titles
        and int_of_str = int_of_decimal and self = example_client
        and code = "ascii ''00126380''" and sd = "ascii ''20240101''"
        and ed = "ascii ''20241231''" and dt = "Some (ascii ''B001,I001'')" and pc = 100,
        OF _ _ pages]
    by (simp add: example_checker_def DividendPolicyChecker_init_def example_corp_def
          str_or_empty_def)
  have titles: "\<forall>item\<in>set ?filings. has_string_title item"
    by (simp add: has_string_title_def filing_def)
  show ?thesis
    using evaluate_company_result[OF run titles]
    by (simp add: example_checker_def DividendPolicyChecker_init_def example_corp_def
          str_or_empty_def str_or_def title_matches_def report_title_def filing_def
          DEFAULT_KEYWORDS_def)
qed

end
